theory Spec2Isabelle
  imports Complex_Main
begin

section \<open>Numbers\<close>

text \<open>
  A JavaScript \<^verbatim>\<open>number\<close> is either finite or one of the three non-finite values.
  Finite values are modelled as reals with exact arithmetic: the rounding error of
  IEEE doubles and the sign of zero are left out, the control flow on NaN and the
  infinities (\<^verbatim>\<open>Number.isFinite\<close>, comparisons) is kept.
\<close>

datatype number = Fin real | PosInfinity | NegInfinity | NaN

text \<open>\<^verbatim>\<open>a <= r\<close> for a number \<open>a\<close> and a finite \<open>r\<close>: every comparison with NaN is false.\<close>

fun num_le :: "number \<Rightarrow> real \<Rightarrow> bool" where
  "num_le (Fin x) r = (x \<le> r)"
| "num_le PosInfinity r = False"
| "num_le NegInfinity r = True"
| "num_le NaN r = False"

text \<open>
  \<^verbatim>\<open>Math.round\<close> on a finite value: the closest integer, and of two equally close
  integers the one nearer to plus infinity.
\<close>

definition Math_round :: "real \<Rightarrow> real" where
  "Math_round x = of_int \<lfloor>x + 1 / 2\<rfloor>"

section \<open>Data model (src/types/golf.ts)\<close>

datatype Lie = TEE | FAIRWAY | ROUGH | BUNKER | RECOVERY | GREEN | FRINGE

text \<open>
  The stroke counts \<^verbatim>\<open>penaltyStrokes\<close> and \<^verbatim>\<open>putts\<close> are finite numbers (the
  code never tests them); the two distances are tested with \<^verbatim>\<open>Number.isFinite\<close> and
  stay full numbers. \<^verbatim>\<open>putts\<close> is optional: \<open>None\<close> when the field is absent.
\<close>

record Shot =
  holeNumber :: nat
  shotNumber :: nat
  startLie :: Lie
  startDistance :: number
  endLie :: Lie
  endDistance :: number
  penaltyStrokes :: real
  putts :: "real option"

section \<open>Baseline table (src/lib/expectedStrokes.ts)\<close>

type_synonym Table = "(real \<times> real) list"

text \<open>
  The module constant \<^verbatim>\<open>PGA_BASELINE\<close> is read by \<^verbatim>\<open>getExpectedStrokes\<close>; the model
  passes it as an argument, so that the branches for an empty or missing curve can be
  exercised. \<open>None\<close> is a key with no table (\<^verbatim>\<open>!points\<close>).
\<close>

type_synonym Baseline = "Lie \<Rightarrow> Table option"

definition TEE_points :: Table where
  "TEE_points =
    [(100, 2.92), (120, 2.99), (140, 2.97), (160, 2.99), (180, 3.05), (200, 3.12),
     (220, 3.17), (240, 3.25), (260, 3.45), (280, 3.65), (300, 3.71), (320, 3.79),
     (340, 3.86), (360, 3.92), (380, 3.96), (400, 3.99), (420, 4.02), (440, 4.08),
     (460, 4.17), (480, 4.28), (500, 4.41), (520, 4.54), (540, 4.65), (560, 4.74),
     (580, 4.79), (600, 4.82)]"

definition FAIRWAY_points :: Table where
  "FAIRWAY_points =
    [(20, 2.4), (40, 2.6), (60, 2.7), (80, 2.75), (100, 2.8), (120, 2.85),
     (140, 2.91), (160, 2.98), (180, 3.08), (200, 3.19), (220, 3.32), (240, 3.45),
     (260, 3.58), (280, 3.69), (300, 3.78), (320, 3.84), (340, 3.88), (360, 3.95),
     (380, 4.03), (400, 4.11), (420, 4.15), (440, 4.2), (460, 4.29), (480, 4.4),
     (500, 4.53), (520, 4.66), (540, 4.78), (560, 4.86), (580, 4.91), (600, 4.94)]"

definition ROUGH_points :: Table where
  "ROUGH_points =
    [(20, 2.59), (40, 2.78), (60, 2.91), (80, 2.96), (100, 3.02), (120, 3.08),
     (140, 3.15), (160, 3.23), (180, 3.31), (200, 3.42), (220, 3.53), (240, 3.64),
     (260, 3.74), (280, 3.83), (300, 3.9), (320, 3.95), (340, 4.02), (360, 4.11),
     (380, 4.21), (400, 4.3), (420, 4.34), (440, 4.39), (460, 4.48), (480, 4.59),
     (500, 4.72), (520, 4.85), (540, 4.97), (560, 5.05), (580, 5.1), (600, 5.13)]"

definition BUNKER_points :: Table where
  "BUNKER_points =
    [(20, 2.53), (40, 2.82), (60, 3.15), (80, 3.24), (100, 3.23), (120, 3.21),
     (140, 3.22), (160, 3.28), (180, 3.4), (200, 3.55), (220, 3.7), (240, 3.84),
     (260, 3.93), (280, 4.0), (300, 4.04), (320, 4.12), (340, 4.26), (360, 4.41),
     (380, 4.55), (400, 4.69), (420, 4.73), (440, 4.78), (460, 4.87), (480, 4.98),
     (500, 5.11), (520, 5.24), (540, 5.36), (560, 5.44), (580, 5.49), (600, 5.52)]"

definition RECOVERY_points :: Table where
  "RECOVERY_points =
    [(100, 3.8), (120, 3.78), (140, 3.8), (160, 3.81), (180, 3.82), (200, 3.87),
     (220, 3.92), (240, 3.97), (260, 4.03), (280, 4.1), (300, 4.2), (320, 4.31),
     (340, 4.44), (360, 4.56), (380, 4.66), (400, 4.75), (420, 4.79), (440, 4.84),
     (460, 4.93), (480, 5.04), (500, 5.17), (520, 5.3), (540, 5.42), (560, 5.5),
     (580, 5.55), (600, 5.58)]"

definition GREEN_points :: Table where
  "GREEN_points =
    [(3, 1.04), (4, 1.13), (5, 1.23), (6, 1.34), (7, 1.42), (8, 1.5), (9, 1.56),
     (10, 1.61), (15, 1.78), (20, 1.87), (30, 1.98), (40, 2.06), (50, 2.14),
     (60, 2.21), (90, 2.4)]"

fun PGA_BASELINE :: Baseline where
  "PGA_BASELINE TEE = Some TEE_points"
| "PGA_BASELINE FAIRWAY = Some FAIRWAY_points"
| "PGA_BASELINE ROUGH = Some ROUGH_points"
| "PGA_BASELINE BUNKER = Some BUNKER_points"
| "PGA_BASELINE RECOVERY = Some RECOVERY_points"
| "PGA_BASELINE FRINGE = Some []"
| "PGA_BASELINE GREEN = Some GREEN_points"

section \<open>Expected-strokes estimator (src/lib/expectedStrokes.ts)\<close>

text \<open>
  Reading \<^verbatim>\<open>points[0][0]\<close> of an empty array throws a TypeError; it is the only
  exception the estimator can raise.
\<close>

datatype error = TypeError

text \<open>
  The \<^verbatim>\<open>for\<close> loop of \<^verbatim>\<open>interpolate\<close>, from index \<open>i\<close> on; \<open>lastv\<close> is
  \<^verbatim>\<open>last[1]\<close>, returned when no pair brackets the distance.
\<close>

function interpolate_loop :: "Table \<Rightarrow> real \<Rightarrow> real \<Rightarrow> nat \<Rightarrow> real" where
  "interpolate_loop points lastv distance i =
     (if i < length points - 1 then
        (case (points ! i, points ! (i + 1)) of
           ((d0, s0), (d1, s1)) \<Rightarrow>
             if distance \<ge> d0 \<and> distance \<le> d1 then
               (let t = (distance - d0) / (d1 - d0) in s0 + t * (s1 - s0))
             else interpolate_loop points lastv distance (i + 1))
      else lastv)"
  by pat_completeness auto
termination
  by (relation "measure (\<lambda>(points, lastv, distance, i). length points - i)") auto

declare interpolate_loop.simps [simp del]

definition interpolate :: "Table \<Rightarrow> real \<Rightarrow> error + real" where
  "interpolate points distance =
     (if points = [] then Inl TypeError
      else if distance \<le> fst (points ! 0) then Inr (snd (points ! 0))
      else
        let lst = points ! (length points - 1) in
        if distance \<ge> fst lst then Inr (snd lst)
        else Inr (interpolate_loop points (snd lst) distance 0))"

text \<open>
  \<^verbatim>\<open>getExpectedStrokes\<close>: \<open>Inr None\<close> is the \<^verbatim>\<open>null\<close> of the source. The first
  test, \<^verbatim>\<open>!Number.isFinite(distanceM) || distanceM <= 0\<close>, is the case distinction on the
  number together with \<open>m \<le> 0\<close>. The \<^verbatim>\<open>console.warn\<close> calls have no influence on the
  result and are not modelled.
\<close>

definition getExpectedStrokes :: "Baseline \<Rightarrow> Lie \<Rightarrow> number \<Rightarrow> error + real option" where
  "getExpectedStrokes baseline lie distanceM =
     (case distanceM of
        Fin m \<Rightarrow>
          if m \<le> 0 then Inr (Some 0)
          else if lie = GREEN then
            (case baseline GREEN of
               None \<Rightarrow> Inr None
             | Some greenPoints \<Rightarrow>
                 if length greenPoints = 0 then Inr None
                 else map_sum id Some (interpolate greenPoints (m * 3.28084)))
          else
            (let lookupLie = (if lie = FRINGE then FAIRWAY else lie) in
             case baseline lookupLie of
               None \<Rightarrow> Inr None
             | Some points \<Rightarrow>
                 if length points = 0 then Inr None
                 else map_sum id Some (interpolate points (m / 0.9144)))
      | _ \<Rightarrow> Inr (Some 0))"

section \<open>Shot categorizer and strokes-gained calculator (src/lib/strokesGained.ts)\<close>

datatype ShotCategory = OTT | APP | ARG | PUTT

definition categorizeShot :: "Shot \<Rightarrow> ShotCategory" where
  "categorizeShot shot =
     (if startLie shot = TEE then OTT
      else if startLie shot = GREEN then PUTT
      else if startLie shot = FRINGE then ARG
      else if startLie shot = BUNKER \<or> startLie shot = RECOVERY then ARG
      else if num_le (startDistance shot) 30 then ARG else APP)"

record SGResult =
  sg :: "real option"
  category :: ShotCategory
  isValid :: bool

definition isHoled :: "Shot \<Rightarrow> bool" where
  "isHoled shot \<longleftrightarrow>
     (endLie shot = GREEN \<and> endDistance shot = Fin 0) \<or>
     (startLie shot = GREEN \<and> putts shot \<noteq> None)"

definition expectedEnd :: "Baseline \<Rightarrow> Shot \<Rightarrow> error + real option" where
  "expectedEnd baseline shot =
     (if isHoled shot then Inr (Some 0)
      else getExpectedStrokes baseline (endLie shot) (endDistance shot))"

definition strokesUsed :: "Shot \<Rightarrow> real" where
  "strokesUsed shot =
     (case putts shot of
        Some p \<Rightarrow> if startLie shot = GREEN then p + penaltyStrokes shot
                  else 1 + penaltyStrokes shot
      | None \<Rightarrow> 1 + penaltyStrokes shot)"

text \<open>
  \<^verbatim>\<open>calculateStrokesGained\<close>. The difference \<open>raw\<close> and the product \<open>raw * 1000\<close> are
  exact here and IEEE doubles in the source: where the exact product lies halfway
  between two integers, the double handed to \<^verbatim>\<open>Math.round\<close> may lie on either side of
  it, so the direction of such a tie in this definition need not be the program's.
  This concerns only a \<open>raw\<close> exactly halfway between two 3-decimal values.
\<close>

definition calculateStrokesGained :: "Baseline \<Rightarrow> Shot \<Rightarrow> error + SGResult" where
  "calculateStrokesGained baseline shot =
     (case getExpectedStrokes baseline (startLie shot) (startDistance shot) of
        Inl e \<Rightarrow> Inl e
      | Inr expectedStart \<Rightarrow>
         (case expectedEnd baseline shot of
            Inl e \<Rightarrow> Inl e
          | Inr expectedEnd' \<Rightarrow>
             (case (expectedStart, expectedEnd') of
                (Some es, Some ee) \<Rightarrow>
                  (let raw = es - ee - strokesUsed shot;
                       sgv = Math_round (raw * 1000) / 1000
                   in Inr \<lparr>sg = Some sgv, category = categorizeShot shot, isValid = True\<rparr>)
              | _ \<Rightarrow> Inr \<lparr>sg = None, category = APP, isValid = False\<rparr>)))"

section \<open>Cross-round aggregate (dashboard page, src/unnamed/part_000)\<close>

record Round =
  round_id :: string
  createdAt :: real
  courseName :: "string option"
  holes :: nat
  targetHoles :: nat
  endedAt :: "real option"
  shots :: "Shot list"

record Totals =
  OTT_sum :: real
  APP_sum :: real
  ARG_sum :: real
  PUTT_sum :: real
  TOTAL_sum :: real

record RoundWithTotals =
  round_of :: Round
  totals :: Totals

record Aggregate =
  avg :: Totals
  best :: number
  worst :: number

text \<open>\<^verbatim>\<open>Math.max(...xs)\<close> and \<^verbatim>\<open>Math.min(...xs)\<close>: minus and plus infinity on no arguments.\<close>

fun Math_max :: "real list \<Rightarrow> number" where
  "Math_max [] = NegInfinity"
| "Math_max (x # xs) = (case Math_max xs of Fin m \<Rightarrow> Fin (max x m) | _ \<Rightarrow> Fin x)"

fun Math_min :: "real list \<Rightarrow> number" where
  "Math_min [] = PosInfinity"
| "Math_min (x # xs) = (case Math_min xs of Fin m \<Rightarrow> Fin (min x m) | _ \<Rightarrow> Fin x)"

text \<open>One pass of the summing loop of \<^verbatim>\<open>aggregate\<close>.\<close>

definition add_totals :: "Totals \<Rightarrow> RoundWithTotals \<Rightarrow> Totals" where
  "add_totals base item =
     \<lparr>OTT_sum = OTT_sum base + OTT_sum (totals item),
      APP_sum = APP_sum base + APP_sum (totals item),
      ARG_sum = ARG_sum base + ARG_sum (totals item),
      PUTT_sum = PUTT_sum base + PUTT_sum (totals item),
      TOTAL_sum = TOTAL_sum base + TOTAL_sum (totals item)\<rparr>"

definition aggregate :: "RoundWithTotals list \<Rightarrow> Aggregate" where
  "aggregate filteredRounds =
     (let base = \<lparr>OTT_sum = 0, APP_sum = 0, ARG_sum = 0, PUTT_sum = 0, TOTAL_sum = 0\<rparr> in
      if length filteredRounds = 0 then \<lparr>avg = base, best = Fin 0, worst = Fin 0\<rparr>
      else
        let base' = foldl add_totals base filteredRounds;
            count = real (length filteredRounds);
            avg' = \<lparr>OTT_sum = OTT_sum base' / count, APP_sum = APP_sum base' / count,
                    ARG_sum = ARG_sum base' / count, PUTT_sum = PUTT_sum base' / count,
                    TOTAL_sum = TOTAL_sum base' / count\<rparr>;
            totals' = map (\<lambda>r. TOTAL_sum (totals r)) filteredRounds
        in \<lparr>avg = avg', best = Math_max totals', worst = Math_min totals'\<rparr>)"

section \<open>The specification's notions\<close>

text \<open>
  The definitions of this section follow the words of the specification, not the code;
  the theorems below compare the code with them.
\<close>

text \<open>A finite positive distance (the estimator's contract).\<close>

definition finite_positive :: "number \<Rightarrow> bool" where
  "finite_positive d = (case d of Fin x \<Rightarrow> 0 < x | _ \<Rightarrow> False)"

text \<open>
  The first consecutive pair \<open>(d0, s0), (d1, s1)\<close> of a curve with \<open>d0 \<le> x \<le> d1\<close>,
  scanning the pairs in order.
\<close>

definition first_bracket :: "Table \<Rightarrow> real \<Rightarrow> ((real \<times> real) \<times> (real \<times> real)) option" where
  "first_bracket points x =
     List.find (\<lambda>((d0, s0), (d1, s1)). d0 \<le> x \<and> x \<le> d1) (zip points (tl points))"

text \<open>
  The interpolation algorithm of the specification: clamp low, clamp high, otherwise
  interpolate linearly on the first bracketing pair (\<open>None\<close> if there is none).
\<close>

definition spec_interpolate :: "Table \<Rightarrow> real \<Rightarrow> real option" where
  "spec_interpolate points x =
     (if x \<le> fst (hd points) then Some (snd (hd points))
      else if x \<ge> fst (last points) then Some (snd (last points))
      else map_option (\<lambda>((d0, s0), (d1, s1)). s0 + (x - d0) / (d1 - d0) * (s1 - s0))
             (first_bracket points x))"

text \<open>Rounding to an integer with ties away from zero, and to three decimals with it.\<close>

definition round_half_away_from_zero :: "real \<Rightarrow> real" where
  "round_half_away_from_zero x = sgn x * of_int \<lfloor>\<bar>x\<bar> + 1 / 2\<rfloor>"

definition round3_half_away :: "real \<Rightarrow> real" where
  "round3_half_away x = round_half_away_from_zero (x * 1000) / 1000"

text \<open>
  A curve whose distances increase strictly and whose expected strokes never decrease.
\<close>

definition monotone_table :: "Table \<Rightarrow> bool" where
  "monotone_table points \<longleftrightarrow> sorted_wrt (<) (map fst points) \<and> sorted (map snd points)"

section \<open>Auxiliary definitions\<close>

text \<open>
  The loop of \<^verbatim>\<open>interpolate\<close> once more, by recursion on the points that remain;
  \<open>interpolate_loop_scan\<close> shows that it computes what the indexed loop computes.
\<close>

fun scan :: "Table \<Rightarrow> real \<Rightarrow> real \<Rightarrow> real" where
  "scan (p # q # rest) lastv x =
     (if fst p \<le> x \<and> x \<le> fst q
      then snd p + (x - fst p) / (fst q - fst p) * (snd q - snd p)
      else scan (q # rest) lastv x)"
| "scan [p] lastv x = lastv"
| "scan [] lastv x = lastv"

text \<open>A baseline with no curve at all.\<close>

definition no_baseline :: Baseline where
  "no_baseline lie = None"

text \<open>Example shots.\<close>

definition tee_shot :: Shot where
  "tee_shot =
     \<lparr>holeNumber = 1, shotNumber = 1, startLie = TEE, startDistance = Fin 150,
      endLie = FAIRWAY, endDistance = Fin 120, penaltyStrokes = 0, putts = None\<rparr>"

text \<open>
  A drive from 360 yards (329.184 m) that leaves 312.5 yards (285.75 m) on the fairway.
\<close>

definition topped_drive :: Shot where
  "topped_drive =
     \<lparr>holeNumber = 1, shotNumber = 1, startLie = TEE, startDistance = Fin 329.184,
      endLie = FAIRWAY, endDistance = Fin 285.75, penaltyStrokes = 0, putts = None\<rparr>"

text \<open>An approach from 100 yards (91.44 m) that is holed.\<close>

definition holed_approach :: Shot where
  "holed_approach =
     \<lparr>holeNumber = 2, shotNumber = 2, startLie = FAIRWAY, startDistance = Fin 91.44,
      endLie = GREEN, endDistance = Fin 0, penaltyStrokes = 0, putts = None\<rparr>"

text \<open>A one-putt from 3 m.\<close>

definition holed_putt :: Shot where
  "holed_putt =
     \<lparr>holeNumber = 1, shotNumber = 3, startLie = GREEN, startDistance = Fin 3,
      endLie = GREEN, endDistance = Fin 0, penaltyStrokes = 0, putts = Some 1\<rparr>"

section \<open>The interpolation loop\<close>

lemma interpolate_loop_scan:
  "interpolate_loop points lastv x i = scan (drop i points) lastv x"
proof (induction points lastv x i rule: interpolate_loop.induct)
  case (1 points lastv distance i)
  show ?case
  proof (cases "i < length points - 1")
    case True
    then have "drop i points = points ! i # points ! (i + 1) # drop (i + 2) points"
      by (metis Cons_nth_drop_Suc Suc_eq_plus1 add_2_eq_Suc' less_diff_conv
          add_lessD1)
    moreover have "drop (i + 1) points = points ! (i + 1) # drop (i + 2) points"
      using True by (metis Cons_nth_drop_Suc Suc_eq_plus1 add_2_eq_Suc' less_diff_conv)
    ultimately show ?thesis
      using True 1
      by (subst interpolate_loop.simps) (auto simp: Let_def split: prod.splits)
  next
    case False
    then have "drop i points = [] \<or> (\<exists>p. drop i points = [p])"
      by (cases "drop i points"; cases "tl (drop i points)")
        (auto simp: drop_Suc dest!: arg_cong[where f=length])
    then show ?thesis using False
      by (subst interpolate_loop.simps) auto
  qed
qed

lemma scan_find:
  "scan points lastv x =
     (case first_bracket points x of
        Some ((d0, s0), (d1, s1)) \<Rightarrow> s0 + (x - d0) / (d1 - d0) * (s1 - s0)
      | None \<Rightarrow> lastv)"
  by (induction points lastv x rule: scan.induct)
     (auto simp: first_bracket_def split: prod.splits)

text \<open>
  Strictly between the first and the last distance some consecutive pair brackets the
  distance, whatever the order of the points: the final \<^verbatim>\<open>return last[1]\<close> of
  \<^verbatim>\<open>interpolate\<close> is never reached.
\<close>

lemma bracket_exists:
  "fst p \<le> x \<Longrightarrow> x \<le> fst (last (p # ps)) \<Longrightarrow> ps \<noteq> [] \<Longrightarrow>
   first_bracket (p # ps) x \<noteq> None"
proof (induction ps arbitrary: p)
  case Nil
  then show ?case by simp
next
  case (Cons q qs)
  show ?case
  proof (cases "x \<le> fst q")
    case True
    with Cons.prems show ?thesis by (auto simp: first_bracket_def split: prod.splits)
  next
    case False
    then have "qs \<noteq> []" using Cons.prems by auto
    with Cons.IH[of q] False Cons.prems have "first_bracket (q # qs) x \<noteq> None" by auto
    then show ?thesis by (auto simp: first_bracket_def split: prod.splits)
  qed
qed

lemma interpolate_scan:
  "points \<noteq> [] \<Longrightarrow>
   interpolate points x =
     Inr (if x \<le> fst (hd points) then snd (hd points)
          else if x \<ge> fst (last points) then snd (last points)
          else scan points (snd (last points)) x)"
  by (simp add: interpolate_def Let_def hd_conv_nth last_conv_nth interpolate_loop_scan)

lemma interpolate_spec:
  assumes "points \<noteq> []"
  shows "\<exists>v. spec_interpolate points x = Some v \<and> interpolate points x = Inr v"
proof (cases "x \<le> fst (hd points) \<or> x \<ge> fst (last points)")
  case True
  then show ?thesis using assms by (auto simp: interpolate_scan spec_interpolate_def)
next
  case False
  obtain p ps where pts: "points = p # ps" using assms by (cases points) auto
  have "ps \<noteq> []" using False pts by auto
  with bracket_exists[of p x ps] False pts
  obtain b where b: "first_bracket points x = Some b" by (cases "first_bracket points x") auto
  show ?thesis
    using False assms b
    by (auto simp: interpolate_scan spec_interpolate_def scan_find split: prod.splits)
qed

section \<open>The estimator and the calculator never throw\<close>

lemma getExpectedStrokes_Fin_pos:
  "0 < m \<Longrightarrow> baseline (if lie = FRINGE then FAIRWAY else lie) = Some points \<Longrightarrow> points \<noteq> [] \<Longrightarrow>
   getExpectedStrokes baseline lie (Fin m) =
     map_sum id Some (interpolate points (if lie = GREEN then m * 3.28084 else m / 0.9144))"
  by (auto simp: getExpectedStrokes_def Let_def)

lemma getExpectedStrokes_total:
  "\<exists>r. getExpectedStrokes baseline lie d = Inr r"
proof (cases "finite_positive d")
  case False
  then show ?thesis
    by (cases d) (auto simp: finite_positive_def getExpectedStrokes_def)
next
  case True
  then obtain m where d: "d = Fin m" "0 < m" by (cases d) (auto simp: finite_positive_def)
  show ?thesis
  proof (cases "baseline (if lie = FRINGE then FAIRWAY else lie)")
    case None
    then show ?thesis using d by (auto simp: getExpectedStrokes_def Let_def)
  next
    case (Some points)
    show ?thesis
    proof (cases "points = []")
      case True
      with Some d show ?thesis by (auto simp: getExpectedStrokes_def Let_def)
    next
      case False
      with interpolate_spec[OF False] getExpectedStrokes_Fin_pos[of m baseline lie points] Some d
      show ?thesis by (metis map_sum.simps(2))
    qed
  qed
qed

lemma expectedEnd_total: "\<exists>r. expectedEnd baseline shot = Inr r"
  using getExpectedStrokes_total by (simp add: expectedEnd_def)

lemma calculateStrokesGained_valid:
  "getExpectedStrokes baseline (startLie shot) (startDistance shot) = Inr (Some es) \<Longrightarrow>
   expectedEnd baseline shot = Inr (Some ee) \<Longrightarrow>
   calculateStrokesGained baseline shot =
     Inr \<lparr>sg = Some (Math_round ((es - ee - strokesUsed shot) * 1000) / 1000),
          category = categorizeShot shot, isValid = True\<rparr>"
  by (simp add: calculateStrokesGained_def Let_def)

lemma calculateStrokesGained_invalid:
  "getExpectedStrokes baseline (startLie shot) (startDistance shot) = Inr es \<Longrightarrow>
   expectedEnd baseline shot = Inr ee \<Longrightarrow> es = None \<or> ee = None \<Longrightarrow>
   calculateStrokesGained baseline shot = Inr \<lparr>sg = None, category = APP, isValid = False\<rparr>"
  by (auto simp: calculateStrokesGained_def split: option.splits)

section \<open>Malformed distances, the FRINGE alias, the empty aggregate\<close>

text \<open>
  C6: for every lie and every distance that is not a finite positive number (at most 0,
  NaN or infinite), \<^verbatim>\<open>getExpectedStrokes\<close> returns exactly 0, never \<^verbatim>\<open>null\<close>, whatever
  the baseline holds for that lie, an empty or a missing curve included.
\<close>

theorem getExpectedStrokes_malformed_distance:
  "\<not> finite_positive d \<Longrightarrow> getExpectedStrokes baseline lie d = Inr (Some 0)"
  by (cases d) (auto simp: finite_positive_def getExpectedStrokes_def)

text \<open>C6, witness: NaN on the rough, with a baseline that has no curve at all.\<close>

theorem getExpectedStrokes_malformed_distance_witness:
  "\<not> finite_positive NaN \<and> getExpectedStrokes no_baseline ROUGH NaN = Inr (Some 0)"
  using getExpectedStrokes_malformed_distance[of NaN no_baseline ROUGH]
  by (simp add: finite_positive_def)

text \<open>
  C8: for every distance the lookup for FRINGE returns what the lookup for FAIRWAY
  returns, under every baseline, while \<^verbatim>\<open>categorizeShot\<close> puts every shot that starts on
  the fringe into ARG; the alias does not reach the categorization, where a shot from
  100 m on the fairway is APP.
\<close>

theorem FRINGE_alias_lookup_only:
  "getExpectedStrokes baseline FRINGE d = getExpectedStrokes baseline FAIRWAY d \<and>
   categorizeShot (shot\<lparr>startLie := FRINGE\<rparr>) = ARG \<and>
   categorizeShot (shot\<lparr>startLie := FAIRWAY, startDistance := Fin 100\<rparr>) = APP"
  by (cases d; simp add: getExpectedStrokes_def categorizeShot_def)

text \<open>
  C10: on an empty list of filtered rounds the cross-round aggregate is defined: every
  average (OTT, APP, ARG, PUTT, TOTAL) is 0, and so are best and worst.
\<close>

theorem aggregate_no_rounds:
  "aggregate [] =
     \<lparr>avg = \<lparr>OTT_sum = 0, APP_sum = 0, ARG_sum = 0, PUTT_sum = 0, TOTAL_sum = 0\<rparr>,
      best = Fin 0, worst = Fin 0\<rparr>"
  by (simp add: aggregate_def)

section \<open>Piecewise-linear interpolation\<close>

text \<open>
  C5: for every non-empty curve (the one the lie resolves to, FRINGE through FAIRWAY)
  and every positive finite distance \<open>m\<close>, \<^verbatim>\<open>getExpectedStrokes\<close> returns a number, and
  that number is what the specification's algorithm gives on the converted distance
  \<open>x\<close> (feet by the factor 3.28084 on the green, yards by division by 0.9144
  elsewhere): the first point's value if \<open>x\<close> is at most the first distance, else the
  last point's value if \<open>x\<close> is at least the last distance, else the linear
  interpolation on the first consecutive pair that brackets \<open>x\<close>. On a curve with
  strictly increasing distances the last point's value is returned whenever \<open>x\<close> is at
  least the last distance.
\<close>

theorem getExpectedStrokes_piecewise_linear:
  assumes "baseline (if lie = FRINGE then FAIRWAY else lie) = Some points"
    and "points \<noteq> []" and "0 < m"
    and "x = (if lie = GREEN then m * 3.28084 else m / 0.9144)"
  shows "\<exists>v. getExpectedStrokes baseline lie (Fin m) = Inr (Some v) \<and>
             spec_interpolate points x = Some v \<and>
             (sorted_wrt (<) (map fst points) \<and> x \<ge> fst (last points) \<longrightarrow> v = snd (last points))"
proof -
  obtain v where v: "spec_interpolate points x = Some v" "interpolate points x = Inr v"
    using interpolate_spec[OF assms(2)] by blast
  have g: "getExpectedStrokes baseline lie (Fin m) = Inr (Some v)"
    using getExpectedStrokes_Fin_pos[of m baseline lie points] assms v by simp
  have "v = snd (last points)"
    if s: "sorted_wrt (<) (map fst points)" and x: "x \<ge> fst (last points)"
  proof (cases "x \<le> fst (hd points)")
    case False
    then show ?thesis using v x by (simp add: spec_interpolate_def)
  next
    case True
    have "hd points = last points"
    proof (rule ccontr)
      assume ne: "hd points \<noteq> last points"
      obtain p ps where pts: "points = p # ps" using assms(2) by (cases points) auto
      with ne have "ps \<noteq> []" by auto
      then have "last points \<in> set ps" using pts by (metis last_ConsR last_in_set)
      then have "fst p < fst (last points)" using s pts by auto
      then show False using True x pts by simp
    qed
    then show ?thesis using v True by (simp add: spec_interpolate_def)
  qed
  with g v show ?thesis by blast
qed

text \<open>
  C5, witness: on the shipped fairway curve, 285.75 m is 312.5 yards, bracketed by
  300 and 320 yards, and gives 3.8175; 548.64 m is 600 yards, the last distance of the
  strictly increasing curve, and gives the last value 4.94.
\<close>

theorem getExpectedStrokes_piecewise_linear_witness:
  "PGA_BASELINE (if FAIRWAY = FRINGE then FAIRWAY else FAIRWAY) = Some FAIRWAY_points \<and>
   FAIRWAY_points \<noteq> [] \<and> (0::real) < 285.75 \<and>
   first_bracket FAIRWAY_points (285.75 / 0.9144) = Some ((300, 3.78), (320, 3.84)) \<and>
   spec_interpolate FAIRWAY_points (285.75 / 0.9144) = Some 3.8175 \<and>
   getExpectedStrokes PGA_BASELINE FAIRWAY (Fin 285.75) = Inr (Some 3.8175) \<and>
   sorted_wrt (<) (map fst FAIRWAY_points) \<and> 548.64 / 0.9144 \<ge> fst (last FAIRWAY_points) \<and>
   getExpectedStrokes PGA_BASELINE FAIRWAY (Fin 548.64) = Inr (Some 4.94)"
proof -
  have b: "first_bracket FAIRWAY_points (285.75 / 0.9144) = Some ((300, 3.78), (320, 3.84))"
    by (simp add: first_bracket_def FAIRWAY_points_def)
  have i: "spec_interpolate FAIRWAY_points (285.75 / 0.9144) = Some 3.8175"
    by (simp add: spec_interpolate_def first_bracket_def FAIRWAY_points_def)
  have s: "sorted_wrt (<) (map fst FAIRWAY_points)"
    by (simp add: FAIRWAY_points_def)
  have l: "548.64 / 0.9144 \<ge> fst (last FAIRWAY_points)" "snd (last FAIRWAY_points) = 4.94"
    by (simp_all add: FAIRWAY_points_def)
  have n: "FAIRWAY_points \<noteq> []"
    by (simp add: FAIRWAY_points_def)
  show ?thesis
    using getExpectedStrokes_piecewise_linear
            [of PGA_BASELINE FAIRWAY FAIRWAY_points "285.75" "285.75 / 0.9144"]
          getExpectedStrokes_piecewise_linear
            [of PGA_BASELINE FAIRWAY FAIRWAY_points "548.64" "548.64 / 0.9144"]
          b i s l n
    by auto
qed

section \<open>The shipped baseline\<close>

lemma PGA_BASELINE_nonempty:
  "\<exists>points. PGA_BASELINE (if lie = FRINGE then FAIRWAY else lie) = Some points \<and> points \<noteq> []"
  by (cases lie)
     (simp_all add: TEE_points_def FAIRWAY_points_def ROUGH_points_def BUNKER_points_def
        RECOVERY_points_def GREEN_points_def)

lemma getExpectedStrokes_PGA: "\<exists>v. getExpectedStrokes PGA_BASELINE lie d = Inr (Some v)"
proof (cases "finite_positive d")
  case False
  then show ?thesis by (cases d) (auto simp: finite_positive_def getExpectedStrokes_def)
next
  case True
  then obtain m where d: "d = Fin m" "0 < m" by (cases d) (auto simp: finite_positive_def)
  obtain points where p: "PGA_BASELINE (if lie = FRINGE then FAIRWAY else lie) = Some points"
    "points \<noteq> []" using PGA_BASELINE_nonempty by blast
  obtain v where "interpolate points (if lie = GREEN then m * 3.28084 else m / 0.9144) = Inr v"
    using interpolate_spec[OF p(2)] by blast
  with getExpectedStrokes_Fin_pos[of m PGA_BASELINE lie points] p d show ?thesis by simp
qed

text \<open>
  C9: with the shipped \<^verbatim>\<open>PGA_BASELINE\<close>, \<^verbatim>\<open>getExpectedStrokes\<close> returns a number, never
  \<^verbatim>\<open>null\<close>, for every lie and every distance, and \<^verbatim>\<open>calculateStrokesGained\<close> returns a
  valid result with a numeric sg for every shot: the invalid branch is not reachable.
\<close>

theorem PGA_BASELINE_always_valid:
  "(\<exists>v. getExpectedStrokes PGA_BASELINE lie d = Inr (Some v)) \<and>
   (\<exists>v. calculateStrokesGained PGA_BASELINE shot =
          Inr \<lparr>sg = Some v, category = categorizeShot shot, isValid = True\<rparr>)"
proof -
  obtain es where
    es: "getExpectedStrokes PGA_BASELINE (startLie shot) (startDistance shot) = Inr (Some es)"
    using getExpectedStrokes_PGA by blast
  obtain ee where ee: "expectedEnd PGA_BASELINE shot = Inr (Some ee)"
    using getExpectedStrokes_PGA[of "endLie shot" "endDistance shot"]
    by (cases "isHoled shot") (auto simp: expectedEnd_def)
  show ?thesis
    using getExpectedStrokes_PGA calculateStrokesGained_valid[OF es ee] by blast
qed

text \<open>C9, witness: the fringe at 2 m, and a tee shot from 150 m to 120 m on the fairway.\<close>

theorem PGA_BASELINE_always_valid_witness:
  "(\<exists>v. getExpectedStrokes PGA_BASELINE FRINGE (Fin 2) = Inr (Some v)) \<and>
   (\<exists>v. calculateStrokesGained PGA_BASELINE tee_shot =
          Inr \<lparr>sg = Some v, category = OTT, isValid = True\<rparr>)"
  using PGA_BASELINE_always_valid[of FRINGE "Fin 2" tee_shot]
  by (simp add: categorizeShot_def tee_shot_def)

section \<open>The valid result and its rounding\<close>

lemma topped_start:
  "getExpectedStrokes PGA_BASELINE TEE (Fin 329.184) = Inr (Some 3.92)"
  by (simp add: getExpectedStrokes_def interpolate_def TEE_points_def interpolate_loop.simps)

lemma topped_end:
  "getExpectedStrokes PGA_BASELINE FAIRWAY (Fin 285.75) = Inr (Some 3.8175)"
  by (simp add: getExpectedStrokes_def interpolate_def FAIRWAY_points_def interpolate_loop.simps)

lemma topped_drive_start:
  "getExpectedStrokes PGA_BASELINE (startLie topped_drive) (startDistance topped_drive) =
     Inr (Some 3.92)"
  using topped_start by (simp add: topped_drive_def)

lemma topped_drive_end: "expectedEnd PGA_BASELINE topped_drive = Inr (Some 3.8175)"
  using topped_end by (simp add: expectedEnd_def isHoled_def topped_drive_def)

lemma topped_drive_result:
  "calculateStrokesGained PGA_BASELINE topped_drive =
     Inr \<lparr>sg = Some (- 0.897), category = OTT, isValid = True\<rparr>"
proof -
  have u: "strokesUsed topped_drive = 1"
    by (simp add: strokesUsed_def topped_drive_def)
  have c: "categorizeShot topped_drive = OTT"
    by (simp add: categorizeShot_def topped_drive_def)
  have m: "Math_round ((3.92 - 3.8175 - 1) * 1000) / 1000 = - 0.897"
    by (simp add: Math_round_def)
  show ?thesis
    using calculateStrokesGained_valid[OF topped_drive_start topped_drive_end] u c m by simp
qed

lemma holed_approach_start:
  "getExpectedStrokes PGA_BASELINE (startLie holed_approach) (startDistance holed_approach) =
     Inr (Some 2.8)"
  by (simp add: holed_approach_def getExpectedStrokes_def interpolate_def FAIRWAY_points_def
      interpolate_loop.simps)

text \<open>
  C2, counterexample: the topped drive has expectedStart 3.92, expectedEnd 3.8175 and one
  stroke used, so rawSG is -0.8975, halfway between -0.898 and -0.897. The result is
  valid and its sg is -0.897, the value of smaller magnitude; rounding half away from
  zero gives -0.898. On this input the double-precision product is -897.5 as well.
\<close>

theorem sg_tie_not_half_away:
  "calculateStrokesGained PGA_BASELINE topped_drive =
     Inr \<lparr>sg = Some (- 0.897), category = OTT, isValid = True\<rparr> \<and>
   getExpectedStrokes PGA_BASELINE (startLie topped_drive) (startDistance topped_drive) =
     Inr (Some 3.92) \<and>
   expectedEnd PGA_BASELINE topped_drive = Inr (Some 3.8175) \<and>
   strokesUsed topped_drive = 1 \<and>
   round3_half_away (3.92 - 3.8175 - 1) = - 0.898"
proof -
  have u: "strokesUsed topped_drive = 1"
    by (simp add: strokesUsed_def topped_drive_def)
  have h: "round3_half_away (3.92 - 3.8175 - 1) = - 0.898"
    by (simp add: round3_half_away_def round_half_away_from_zero_def)
  show ?thesis
    using topped_drive_result topped_drive_start topped_drive_end u h by simp
qed

text \<open>
  C2, amended: for every shot whose result is valid, sg is a multiple of 1/1000 at most
  1/2000 away from rawSG = expectedStart - expectedEnd - strokesUsed, that is, rawSG
  rounded to 3 decimal places. Nothing is stated for a rawSG exactly halfway between
  two 3-decimal values: there the result is one of the two neighbours, and rounding
  half away from zero is not what decides between them.
\<close>

theorem sg_nearest_three_decimals:
  assumes "calculateStrokesGained baseline shot = Inr r" and "isValid r"
  shows "\<exists>es ee n.
           getExpectedStrokes baseline (startLie shot) (startDistance shot) = Inr (Some es) \<and>
           expectedEnd baseline shot = Inr (Some ee) \<and>
           sg r = Some (of_int n / 1000) \<and>
           \<bar>of_int n / 1000 - (es - ee - strokesUsed shot)\<bar> \<le> 1 / 2000"
proof -
  obtain es where es: "getExpectedStrokes baseline (startLie shot) (startDistance shot) = Inr es"
    using getExpectedStrokes_total by blast
  obtain ee where ee: "expectedEnd baseline shot = Inr ee"
    using expectedEnd_total by blast
  have "\<not> (es = None \<or> ee = None)"
  proof
    assume "es = None \<or> ee = None"
    from calculateStrokesGained_invalid[OF es ee this] assms show False by simp
  qed
  then obtain a b where ab: "es = Some a" "ee = Some b" by auto
  let ?raw = "(a - b - strokesUsed shot) * 1000"
  let ?n = "\<lfloor>?raw + 1 / 2\<rfloor>"
  have r: "sg r = Some (of_int ?n / 1000)"
    using calculateStrokesGained_valid[of baseline shot a b] es ee ab assms
    by (auto simp: Math_round_def)
  have "of_int ?n \<le> ?raw + 1 / 2" by linarith
  moreover have "?raw + 1 / 2 < of_int ?n + 1" by linarith
  ultimately have "\<bar>of_int ?n - ?raw\<bar> \<le> 1 / 2" by linarith
  then have "\<bar>of_int ?n / 1000 - (a - b - strokesUsed shot)\<bar> \<le> 1 / 2000"
    by (simp add: abs_le_iff field_simps)
  with r es ee ab show ?thesis by blast
qed

text \<open>
  C2, witness: the topped drive, whose result is valid; its sg -0.897 is 1/2000 away
  from its rawSG -0.8975.
\<close>

theorem sg_nearest_three_decimals_witness:
  "calculateStrokesGained PGA_BASELINE topped_drive =
     Inr \<lparr>sg = Some (- 0.897), category = OTT, isValid = True\<rparr> \<and>
   isValid \<lparr>sg = Some (- 0.897), category = OTT, isValid = True\<rparr> \<and>
   (\<exists>es ee n.
      getExpectedStrokes PGA_BASELINE (startLie topped_drive) (startDistance topped_drive) =
        Inr (Some es) \<and>
      expectedEnd PGA_BASELINE topped_drive = Inr (Some ee) \<and>
      sg \<lparr>sg = Some (- 0.897), category = OTT, isValid = True\<rparr> = Some (of_int n / 1000) \<and>
      \<bar>of_int n / 1000 - (es - ee - strokesUsed topped_drive)\<bar> \<le> 1 / 2000)"
  using topped_drive_result
    sg_nearest_three_decimals
      [of PGA_BASELINE topped_drive "\<lparr>sg = Some (- 0.897), category = OTT, isValid = True\<rparr>"]
  by simp

text \<open>
  C4: for every shot whose expectedStart and expectedEnd are both numbers,
  \<^verbatim>\<open>calculateStrokesGained\<close> returns a valid result whose sg is expectedStart -
  expectedEnd - strokesUsed rounded to 3 decimals (a multiple of 1/1000 at most 1/2000
  away), where strokesUsed is putts + penaltyStrokes when the shot starts on the green
  and putts is present, and 1 + penaltyStrokes otherwise.
\<close>

theorem valid_result_sg:
  assumes es: "getExpectedStrokes baseline (startLie shot) (startDistance shot) = Inr (Some es)"
    and ee: "expectedEnd baseline shot = Inr (Some ee)"
    and su: "su = (if startLie shot = GREEN \<and> putts shot \<noteq> None
                   then the (putts shot) + penaltyStrokes shot
                   else 1 + penaltyStrokes shot)"
  shows "\<exists>r v. calculateStrokesGained baseline shot = Inr r \<and> isValid r \<and> sg r = Some v \<and>
               v = Math_round ((es - ee - su) * 1000) / 1000 \<and>
               (\<exists>n::int. v = of_int n / 1000) \<and> \<bar>v - (es - ee - su)\<bar> \<le> 1 / 2000"
proof -
  have u: "strokesUsed shot = su"
    using su by (auto simp: strokesUsed_def split: option.splits)
  let ?raw = "(es - ee - su) * 1000"
  let ?v = "Math_round ?raw / 1000"
  have c: "calculateStrokesGained baseline shot =
      Inr \<lparr>sg = Some ?v, category = categorizeShot shot, isValid = True\<rparr>"
    using calculateStrokesGained_valid[OF es ee] u by simp
  have n: "\<exists>n::int. ?v = of_int n / 1000"
    unfolding Math_round_def by blast
  have "of_int \<lfloor>?raw + 1 / 2\<rfloor> \<le> ?raw + 1 / 2" "?raw + 1 / 2 < of_int \<lfloor>?raw + 1 / 2\<rfloor> + 1"
    by linarith+
  then have "\<bar>Math_round ?raw - ?raw\<bar> \<le> 1 / 2"
    unfolding Math_round_def by linarith
  then have b: "\<bar>?v - (es - ee - su)\<bar> \<le> 1 / 2000"
    by (simp add: abs_le_iff field_simps)
  let ?r = "\<lparr>sg = Some ?v, category = categorizeShot shot, isValid = True\<rparr>"
  have "isValid ?r" "sg ?r = Some ?v" by simp_all
  with c n b show ?thesis by blast
qed

text \<open>
  C4, witness: the holed approach from 100 yards has expectedStart 2.8, expectedEnd 0
  and one stroke used; its sg is 1.8.
\<close>

theorem valid_result_sg_witness:
  "getExpectedStrokes PGA_BASELINE (startLie holed_approach) (startDistance holed_approach) =
     Inr (Some 2.8) \<and>
   expectedEnd PGA_BASELINE holed_approach = Inr (Some 0) \<and>
   (\<exists>r v. calculateStrokesGained PGA_BASELINE holed_approach = Inr r \<and> isValid r \<and>
          sg r = Some v \<and> v = 1.8)"
proof -
  have e: "expectedEnd PGA_BASELINE holed_approach = Inr (Some 0)"
    by (simp add: expectedEnd_def isHoled_def holed_approach_def)
  have u: "(1::real) = (if startLie holed_approach = GREEN \<and> putts holed_approach \<noteq> None
                   then the (putts holed_approach) + penaltyStrokes holed_approach
                   else 1 + penaltyStrokes holed_approach)"
    by (simp add: holed_approach_def)
  have m: "Math_round ((2.8 - 0 - 1) * 1000) / 1000 = 1.8"
    by (simp add: Math_round_def)
  show ?thesis
    using valid_result_sg[OF holed_approach_start e u] holed_approach_start e m by auto
qed

section \<open>Holed shots\<close>

text \<open>
  C7: for every baseline and every shot with (endLie = GREEN and endDistance = 0) or
  (startLie = GREEN and putts present), expectedEnd is 0 and the result is the one
  computed from expectedStart, 0 and strokesUsed alone: the end position is not looked
  up. In the putts case the result is the same for every end lie and end distance.
\<close>

theorem holed_expectedEnd_zero:
  assumes "(endLie shot = GREEN \<and> endDistance shot = Fin 0) \<or>
           (startLie shot = GREEN \<and> putts shot \<noteq> None)"
  shows "expectedEnd baseline shot = Inr (Some 0) \<and>
         calculateStrokesGained baseline shot =
           (case getExpectedStrokes baseline (startLie shot) (startDistance shot) of
              Inl e \<Rightarrow> Inl e
            | Inr None \<Rightarrow> Inr \<lparr>sg = None, category = APP, isValid = False\<rparr>
            | Inr (Some es) \<Rightarrow>
                Inr \<lparr>sg = Some (Math_round ((es - 0 - strokesUsed shot) * 1000) / 1000),
                     category = categorizeShot shot, isValid = True\<rparr>) \<and>
         (startLie shot = GREEN \<and> putts shot \<noteq> None \<longrightarrow>
            calculateStrokesGained baseline (shot\<lparr>endLie := l, endDistance := e\<rparr>) =
            calculateStrokesGained baseline shot)"
proof -
  have h: "isHoled shot" using assms by (simp add: isHoled_def)
  have e0: "expectedEnd baseline shot = Inr (Some 0)"
    using h by (simp add: expectedEnd_def)
  have c: "calculateStrokesGained baseline shot =
           (case getExpectedStrokes baseline (startLie shot) (startDistance shot) of
              Inl e \<Rightarrow> Inl e
            | Inr None \<Rightarrow> Inr \<lparr>sg = None, category = APP, isValid = False\<rparr>
            | Inr (Some es) \<Rightarrow>
                Inr \<lparr>sg = Some (Math_round ((es - 0 - strokesUsed shot) * 1000) / 1000),
                     category = categorizeShot shot, isValid = True\<rparr>)"
    using e0 by (simp add: calculateStrokesGained_def Let_def split: sum.splits option.splits)
  have i: "calculateStrokesGained baseline (shot\<lparr>endLie := l, endDistance := e\<rparr>) =
            calculateStrokesGained baseline shot"
    if "startLie shot = GREEN \<and> putts shot \<noteq> None"
  proof -
    have "expectedEnd baseline (shot\<lparr>endLie := l, endDistance := e\<rparr>) =
        expectedEnd baseline shot"
      using that by (simp add: expectedEnd_def isHoled_def)
    moreover have "strokesUsed (shot\<lparr>endLie := l, endDistance := e\<rparr>) = strokesUsed shot"
      by (simp add: strokesUsed_def split: option.splits)
    moreover have "categorizeShot (shot\<lparr>endLie := l, endDistance := e\<rparr>) = categorizeShot shot"
      by (simp add: categorizeShot_def)
    ultimately show ?thesis
      by (simp add: calculateStrokesGained_def Let_def split: sum.splits option.splits)
  qed
  from e0 c i show ?thesis by blast
qed

text \<open>
  C7, witness: the holed approach under a baseline with no GREEN curve is valid with
  sg 1.8; the one-putt has the same result when its end is moved to a bunker 50 m out.
\<close>

theorem holed_expectedEnd_zero_witness:
  "((endLie holed_approach = GREEN \<and> endDistance holed_approach = Fin 0) \<or>
    (startLie holed_approach = GREEN \<and> putts holed_approach \<noteq> None)) \<and>
   expectedEnd (PGA_BASELINE(GREEN := None)) holed_approach = Inr (Some 0) \<and>
   calculateStrokesGained (PGA_BASELINE(GREEN := None)) holed_approach =
     Inr \<lparr>sg = Some 1.8, category = APP, isValid = True\<rparr> \<and>
   startLie holed_putt = GREEN \<and> putts holed_putt \<noteq> None \<and>
   calculateStrokesGained PGA_BASELINE (holed_putt\<lparr>endLie := BUNKER, endDistance := Fin 50\<rparr>) =
     calculateStrokesGained PGA_BASELINE holed_putt"
proof -
  have s: "getExpectedStrokes (PGA_BASELINE(GREEN := None)) (startLie holed_approach)
      (startDistance holed_approach) = Inr (Some 2.8)"
    by (simp add: holed_approach_def getExpectedStrokes_def interpolate_def FAIRWAY_points_def
      interpolate_loop.simps)
  have a: "(endLie holed_approach = GREEN \<and> endDistance holed_approach = Fin 0) \<or>
    (startLie holed_approach = GREEN \<and> putts holed_approach \<noteq> None)"
    by (simp add: holed_approach_def)
  have u: "strokesUsed holed_approach = 1"
    by (simp add: strokesUsed_def holed_approach_def)
  have k: "categorizeShot holed_approach = APP"
    by (simp add: categorizeShot_def holed_approach_def)
  have m: "Math_round ((2.8 - 0 - 1) * 1000) / 1000 = 1.8"
    by (simp add: Math_round_def)
  have p: "startLie holed_putt = GREEN \<and> putts holed_putt \<noteq> None"
    by (simp add: holed_putt_def)
  then have q: "(endLie holed_putt = GREEN \<and> endDistance holed_putt = Fin 0) \<or>
    (startLie holed_putt = GREEN \<and> putts holed_putt \<noteq> None)"
    by simp
  have 1: "expectedEnd (PGA_BASELINE(GREEN := None)) holed_approach = Inr (Some 0) \<and>
   calculateStrokesGained (PGA_BASELINE(GREEN := None)) holed_approach =
     Inr \<lparr>sg = Some 1.8, category = APP, isValid = True\<rparr>"
    using holed_expectedEnd_zero[OF a, of "PGA_BASELINE(GREEN := None)"] s u k m by simp
  have 2: "calculateStrokesGained PGA_BASELINE (holed_putt\<lparr>endLie := BUNKER, endDistance := Fin 50\<rparr>) =
     calculateStrokesGained PGA_BASELINE holed_putt"
    using holed_expectedEnd_zero
        [OF q, where baseline = PGA_BASELINE and l = BUNKER and e = "Fin 50"] p by blast
  from a 1 p 2 show ?thesis by blast
qed

section \<open>Monotonicity\<close>

lemma segment_bounds:
  fixes x :: real
  assumes "d0 \<le> x" "x \<le> d1" "d0 < d1" "s0 \<le> s1"
  shows "s0 \<le> s0 + (x - d0) / (d1 - d0) * (s1 - s0)"
    and "s0 + (x - d0) / (d1 - d0) * (s1 - s0) \<le> s1"
proof -
  let ?t = "(x - d0) / (d1 - d0)"
  have t0: "0 \<le> ?t" using assms by simp
  have t1: "?t \<le> 1" using assms by simp
  show "s0 \<le> s0 + ?t * (s1 - s0)" using t0 assms by simp
  have "?t * (s1 - s0) \<le> 1 * (s1 - s0)"
    using t1 assms by (intro mult_right_mono) auto
  then show "s0 + ?t * (s1 - s0) \<le> s1" by simp
qed

lemma segment_mono:
  fixes x y :: real
  assumes "x \<le> y" "d0 < d1" "s0 \<le> s1"
  shows "s0 + (x - d0) / (d1 - d0) * (s1 - s0) \<le> s0 + (y - d0) / (d1 - d0) * (s1 - s0)"
proof -
  have "(x - d0) / (d1 - d0) \<le> (y - d0) / (d1 - d0)"
    using assms by (simp add: divide_right_mono)
  then have "(x - d0) / (d1 - d0) * (s1 - s0) \<le> (y - d0) / (d1 - d0) * (s1 - s0)"
    using assms by (intro mult_right_mono) auto
  then show ?thesis by simp
qed

lemma scan_bounds:
  "monotone_table (p # ps) \<Longrightarrow> fst p \<le> x \<Longrightarrow> x \<le> fst (last (p # ps)) \<Longrightarrow>
   snd p \<le> scan (p # ps) (snd (last (p # ps))) x \<and>
   scan (p # ps) (snd (last (p # ps))) x \<le> snd (last (p # ps))"
proof (induction ps arbitrary: p)
  case Nil
  then show ?case by simp
next
  case (Cons q qs)
  have pq: "fst p < fst q" "snd p \<le> snd q" and mq: "monotone_table (q # qs)"
    using Cons.prems(1) by (auto simp: monotone_table_def)
  have ql: "snd q \<le> snd (last (q # qs))"
    using mq by (auto simp: monotone_table_def)
  show ?case
  proof (cases "x \<le> fst q")
    case True
    with segment_bounds[of "fst p" x "fst q" "snd p" "snd q"] pq Cons.prems ql
    show ?thesis by auto
  next
    case False
    with Cons.IH[OF mq] Cons.prems pq show ?thesis by auto
  qed
qed

lemma scan_mono:
  "monotone_table (p # ps) \<Longrightarrow> fst p \<le> x \<Longrightarrow> x \<le> y \<Longrightarrow> y \<le> fst (last (p # ps)) \<Longrightarrow>
   scan (p # ps) (snd (last (p # ps))) x \<le> scan (p # ps) (snd (last (p # ps))) y"
proof (induction ps arbitrary: p)
  case Nil
  then show ?case by simp
next
  case (Cons q qs)
  have pq: "fst p < fst q" "snd p \<le> snd q" and mq: "monotone_table (q # qs)"
    using Cons.prems(1) by (auto simp: monotone_table_def)
  consider "y \<le> fst q" | "x \<le> fst q" "fst q < y" | "fst q < x"
    by linarith
  then show ?case
  proof cases
    case 1
    with segment_mono[of x y "fst p" "fst q" "snd p" "snd q"] pq Cons.prems
    show ?thesis by auto
  next
    case 2
    have "scan (p # q # qs) (snd (last (p # q # qs))) x \<le> snd q"
      using 2 segment_bounds(2)[of "fst p" x "fst q" "snd p" "snd q"] pq Cons.prems by auto
    moreover have "snd q \<le> scan (q # qs) (snd (last (q # qs))) y"
      using scan_bounds[OF mq, of y] 2 Cons.prems by auto
    ultimately show ?thesis using 2 by auto
  next
    case 3
    with Cons.IH[OF mq] Cons.prems show ?thesis by auto
  qed
qed

lemma interpolate_lower:
  assumes "monotone_table points" "points \<noteq> []"
  shows "\<exists>v. interpolate points x = Inr v \<and> snd (hd points) \<le> v"
proof -
  obtain p ps where pts: "points = p # ps" using assms(2) by (cases points) auto
  have hl: "snd (hd points) \<le> snd (last points)"
    using scan_bounds[of p ps "fst p"] assms(1) pts
    by (cases ps) (auto simp: monotone_table_def)
  show ?thesis
  proof (cases "x \<le> fst (hd points) \<or> x \<ge> fst (last points)")
    case True
    with hl assms(2) show ?thesis by (auto simp: interpolate_scan)
  next
    case False
    with scan_bounds[of p ps x] assms(1) pts show ?thesis
      by (auto simp: interpolate_scan)
  qed
qed

lemma interpolate_mono:
  assumes "monotone_table points" "points \<noteq> []" "x \<le> y"
  shows "\<exists>v w. interpolate points x = Inr v \<and> interpolate points y = Inr w \<and> v \<le> w"
proof -
  obtain p ps where pts: "points = p # ps" using assms(2) by (cases points) auto
  let ?F = "\<lambda>z. if z \<le> fst (hd points) then snd (hd points)
          else if z \<ge> fst (last points) then snd (last points)
          else scan points (snd (last points)) z"
  have F: "interpolate points z = Inr (?F z)" for z
    using interpolate_scan[OF assms(2)] by simp
  have lower: "snd (hd points) \<le> ?F z" for z
    using interpolate_lower[OF assms(1,2), of z] F[of z] by simp
  have "?F x \<le> ?F y"
  proof (cases "x \<le> fst (hd points)")
    case True
    then show ?thesis using lower[of y] by simp
  next
    case xlo: False
    then have ylo: "\<not> y \<le> fst (hd points)" using assms(3) by simp
    show ?thesis
    proof (cases "y \<ge> fst (last points)")
      case True
      show ?thesis
      proof (cases "x \<ge> fst (last points)")
        case True
        with \<open>y \<ge> fst (last points)\<close> xlo ylo show ?thesis by simp
      next
        case False
        with scan_bounds[of p ps x] assms(1) pts xlo ylo True show ?thesis by auto
      qed
    next
      case False
      then have "\<not> x \<ge> fst (last points)" using assms(3) by simp
      with scan_mono[of p ps x y] assms pts xlo ylo False show ?thesis by auto
    qed
  qed
  with F show ?thesis by blast
qed

lemma getExpectedStrokes_mono:
  assumes b: "baseline (if lie = FRINGE then FAIRWAY else lie) = Some points"
    and m: "monotone_table points" and ne: "points \<noteq> []" and pos: "0 \<le> snd (hd points)"
    and le: "d \<le> d'"
  shows "\<exists>v w. getExpectedStrokes baseline lie (Fin d) = Inr (Some v) \<and>
               getExpectedStrokes baseline lie (Fin d') = Inr (Some w) \<and> v \<le> w"
proof (cases "0 < d")
  case True
  then have d': "0 < d'" using le by simp
  let ?c = "\<lambda>z. if lie = GREEN then z * 3.28084 else z / (0.9144::real)"
  have "?c d \<le> ?c d'" using le by (simp add: divide_right_mono)
  from interpolate_mono[OF m ne this]
  obtain v w where "interpolate points (?c d) = Inr v" "interpolate points (?c d') = Inr w" "v \<le> w"
    by blast
  with getExpectedStrokes_Fin_pos[of d baseline lie points]
       getExpectedStrokes_Fin_pos[of d' baseline lie points] True d' b ne
  show ?thesis by simp
next
  case False
  then have z: "getExpectedStrokes baseline lie (Fin d) = Inr (Some 0)"
    by (simp add: getExpectedStrokes_def)
  show ?thesis
  proof (cases "0 < d'")
    case False
    then have "getExpectedStrokes baseline lie (Fin d') = Inr (Some 0)"
      by (simp add: getExpectedStrokes_def)
    with z show ?thesis by simp
  next
    case True
    obtain w where "interpolate points (if lie = GREEN then d' * 3.28084 else d' / 0.9144) = Inr w"
      "snd (hd points) \<le> w"
      using interpolate_lower[OF m ne] by blast
    with getExpectedStrokes_Fin_pos[of d' baseline lie points] True b ne z pos
    show ?thesis by simp
  qed
qed

lemma monotone_FAIRWAY: "monotone_table FAIRWAY_points"
  by (simp add: monotone_table_def FAIRWAY_points_def)

lemma monotone_ROUGH: "monotone_table ROUGH_points"
  by (simp add: monotone_table_def ROUGH_points_def)

lemma monotone_GREEN: "monotone_table GREEN_points"
  by (simp add: monotone_table_def GREEN_points_def)

text \<open>
  C3, counterexample: on the TEE curve the expected strokes fall from 2.99 at 120 yards
  (109.728 m) to 2.97 at 140 yards (128.016 m), on the BUNKER curve from 3.24 at 80 yards
  (73.152 m) to 3.23 at 100 yards (91.44 m), on the RECOVERY curve from 3.8 at 100 yards
  to 3.78 at 120 yards; all these distances lie between the first and the last control
  point of their curve.
\<close>

theorem TEE_BUNKER_RECOVERY_not_monotone:
  "(109.728::real) \<le> 128.016 \<and>
   getExpectedStrokes PGA_BASELINE TEE (Fin 109.728) = Inr (Some 2.99) \<and>
   getExpectedStrokes PGA_BASELINE TEE (Fin 128.016) = Inr (Some 2.97) \<and>
   (73.152::real) \<le> 91.44 \<and>
   getExpectedStrokes PGA_BASELINE BUNKER (Fin 73.152) = Inr (Some 3.24) \<and>
   getExpectedStrokes PGA_BASELINE BUNKER (Fin 91.44) = Inr (Some 3.23) \<and>
   (91.44::real) \<le> 109.728 \<and>
   getExpectedStrokes PGA_BASELINE RECOVERY (Fin 91.44) = Inr (Some 3.8) \<and>
   getExpectedStrokes PGA_BASELINE RECOVERY (Fin 109.728) = Inr (Some 3.78) \<and>
   \<not> ((2.99::real) \<le> 2.97) \<and> \<not> ((3.24::real) \<le> 3.23) \<and> \<not> ((3.8::real) \<le> 3.78) \<and>
   fst (hd TEE_points) \<le> 109.728 / 0.9144 \<and> 128.016 / 0.9144 \<le> fst (last TEE_points) \<and>
   fst (hd BUNKER_points) \<le> 73.152 / 0.9144 \<and> 91.44 / 0.9144 \<le> fst (last BUNKER_points) \<and>
   fst (hd RECOVERY_points) \<le> 91.44 / 0.9144 \<and>
   109.728 / 0.9144 \<le> fst (last RECOVERY_points)"
  by (simp add: getExpectedStrokes_def interpolate_def TEE_points_def BUNKER_points_def
      RECOVERY_points_def interpolate_loop.simps)

text \<open>
  C3, amended: for FAIRWAY, ROUGH and GREEN, expectedStrokes(lie, d) never decreases as
  the distance d increases, over all finite distances and so over the range from the
  curve's first to its last control point.
\<close>

theorem expected_strokes_monotone:
  assumes "lie \<in> {FAIRWAY, ROUGH, GREEN}" and "d \<le> d'"
  shows "\<exists>v w. getExpectedStrokes PGA_BASELINE lie (Fin d) = Inr (Some v) \<and>
               getExpectedStrokes PGA_BASELINE lie (Fin d') = Inr (Some w) \<and> v \<le> w"
proof -
  consider "lie = FAIRWAY" | "lie = ROUGH" | "lie = GREEN" using assms(1) by auto
  then show ?thesis
  proof cases
    case 1
    show ?thesis
      using getExpectedStrokes_mono[of PGA_BASELINE lie FAIRWAY_points d d']
        monotone_FAIRWAY assms(2) 1
      by (simp add: FAIRWAY_points_def)
  next
    case 2
    show ?thesis
      using getExpectedStrokes_mono[of PGA_BASELINE lie ROUGH_points d d']
        monotone_ROUGH assms(2) 2
      by (simp add: ROUGH_points_def)
  next
    case 3
    show ?thesis
      using getExpectedStrokes_mono[of PGA_BASELINE lie GREEN_points d d']
        monotone_GREEN assms(2) 3
      by (simp add: GREEN_points_def)
  qed
qed

text \<open>C3, witness: the fairway at 100 m and at 200 m.\<close>

theorem expected_strokes_monotone_witness:
  "FAIRWAY \<in> {FAIRWAY, ROUGH, GREEN} \<and> (100::real) \<le> 200 \<and>
   (\<exists>v w. getExpectedStrokes PGA_BASELINE FAIRWAY (Fin 100) = Inr (Some v) \<and>
          getExpectedStrokes PGA_BASELINE FAIRWAY (Fin 200) = Inr (Some w) \<and> v \<le> w)"
  using expected_strokes_monotone[of FAIRWAY 100 200] by simp

end
